theory Spec2Isabelle
  imports Main
begin

section \<open>JavaScript numbers\<close>

text \<open>
  A JavaScript number is an IEEE 754 binary64 value.  A finite one is kept as sign,
  mantissa and binary exponent, \<open>Finite neg m e\<close> standing for \<open>(-1)^neg * m * 2^e\<close>
  with \<open>m\<close> odd (or \<open>m = 0\<close> and \<open>e = 0\<close> for the two zeros), so that two numbers
  are equal exactly when their representations are.  All arithmetic below is integer
  arithmetic on these representations.
\<close>

datatype number = NaN | Infinity bool | Finite bool int int

fun bitlen :: "int \<Rightarrow> int" where
  "bitlen n = (if n \<le> 0 then 0 else 1 + bitlen (n div 2))"

fun strip2 :: "int \<Rightarrow> int \<Rightarrow> int \<times> int" where
  "strip2 m e = (if m \<le> 0 then (0, 0) else if even m then strip2 (m div 2) (e + 1) else (m, e))"

definition round_half_even :: "int \<Rightarrow> int \<Rightarrow> int" where
  "round_half_even n d =
     (let q = n div d; r = n mod d
      in if 2 * r < d then q else if d < 2 * r then q + 1 else if even q then q else q + 1)"

definition floor_log2 :: "int \<Rightarrow> int \<Rightarrow> int" where
  "floor_log2 a b =
     (let d = bitlen a - bitlen b
      in if (if 0 \<le> d then b * 2 ^ nat d \<le> a else b \<le> a * 2 ^ nat (- d)) then d else d - 1)"

text \<open>
  \<open>round_decimal neg d k\<close> is the binary64 value nearest to \<open>(-1)^neg * d * 10^k\<close>
  (ties to even; 53 bits of precision down to exponent \<open>-1022\<close>, gradual underflow below,
  infinity from \<open>2^1024\<close> on): the rounding that the language prescribes for numeric
  literals and for \<open>parseFloat\<close>.  The language lets an engine cut a literal of more
  than 20 significant digits before rounding; the engines in use round the exact value,
  and so does the model.
\<close>

definition round_decimal :: "bool \<Rightarrow> int \<Rightarrow> int \<Rightarrow> number" where
  "round_decimal neg d k =
     (if d \<le> 0 then Finite neg 0 0
      else
        let a = (if 0 \<le> k then d * 10 ^ nat k else d);
            b = (if 0 \<le> k then 1 else 10 ^ nat (- k));
            qe = max (floor_log2 a b) (- 1022) - 52;
            n = (if 0 \<le> qe then round_half_even a (b * 2 ^ nat qe)
                 else round_half_even (a * 2 ^ nat (- qe)) b)
        in if 971 < qe \<or> (qe = 971 \<and> 2 ^ 53 \<le> n) then Infinity neg
           else case strip2 n qe of (m, e) \<Rightarrow> Finite neg m e)"


definition isNaN :: "number \<Rightarrow> bool" where
  "isNaN x = (x = NaN)"

text \<open>\<open>x <= 0\<close> on numbers: false for \<open>NaN\<close>, true for both zeros.\<close>

definition le_zero :: "number \<Rightarrow> bool" where
  "le_zero x = (case x of NaN \<Rightarrow> False | Infinity neg \<Rightarrow> neg | Finite neg m e \<Rightarrow> neg \<or> m = 0)"

text \<open>Truthiness of a property that holds a number or is absent (\<open>undefined\<close>).\<close>

definition truthy_number :: "number option \<Rightarrow> bool" where
  "truthy_number v =
     (case v of None \<Rightarrow> False | Some NaN \<Rightarrow> False | Some (Infinity neg) \<Rightarrow> True
      | Some (Finite neg m e) \<Rightarrow> m \<noteq> 0)"

section \<open>Strings and \<open>parseFloat\<close>\<close>

text \<open>
  A string is a list of bytes, the UTF-8 encoding of the text.  \<open>ws_len s\<close> is the
  number of bytes of the white space or line terminator code point at the head of \<open>s\<close>,
  and 0 when there is none.
\<close>

definition ws_len :: "string \<Rightarrow> nat" where
  "ws_len s =
     (if take 1 s \<in> set [[CHR 0x09], [CHR 0x0A], [CHR 0x0B], [CHR 0x0C], [CHR 0x0D], [CHR 0x20]]
        then 1
      else if take 2 s = [CHR 0xC2, CHR 0xA0] then 2
      else if take 3 s \<in> set
          [[CHR 0xE1, CHR 0x9A, CHR 0x80],
           [CHR 0xE2, CHR 0x80, CHR 0x80], [CHR 0xE2, CHR 0x80, CHR 0x81],
           [CHR 0xE2, CHR 0x80, CHR 0x82], [CHR 0xE2, CHR 0x80, CHR 0x83],
           [CHR 0xE2, CHR 0x80, CHR 0x84], [CHR 0xE2, CHR 0x80, CHR 0x85],
           [CHR 0xE2, CHR 0x80, CHR 0x86], [CHR 0xE2, CHR 0x80, CHR 0x87],
           [CHR 0xE2, CHR 0x80, CHR 0x88], [CHR 0xE2, CHR 0x80, CHR 0x89],
           [CHR 0xE2, CHR 0x80, CHR 0x8A], [CHR 0xE2, CHR 0x80, CHR 0xA8],
           [CHR 0xE2, CHR 0x80, CHR 0xA9], [CHR 0xE2, CHR 0x80, CHR 0xAF],
           [CHR 0xE2, CHR 0x81, CHR 0x9F], [CHR 0xE3, CHR 0x80, CHR 0x80],
           [CHR 0xEF, CHR 0xBB, CHR 0xBF]]
        then 3
      else 0)"

function trimStart :: "string \<Rightarrow> string" where
  "trimStart s = (if ws_len s = 0 \<or> s = [] then s else trimStart (drop (ws_len s) s))"
  by pat_completeness auto
termination
  by (relation "measure length") auto

definition is_digit :: "char \<Rightarrow> bool" where
  "is_digit c = (c \<in> set ''0123456789'')"

definition digit_val :: "char \<Rightarrow> int" where
  "digit_val c = of_char c - 48"

definition dec_val :: "string \<Rightarrow> int" where
  "dec_val ds = foldl (\<lambda>acc c. 10 * acc + digit_val c) 0 ds"

fun strip_prefix :: "string \<Rightarrow> string \<Rightarrow> string option" where
  "strip_prefix [] s = Some s"
| "strip_prefix (p # ps) [] = None"
| "strip_prefix (p # ps) (c # cs) = (if p = c then strip_prefix ps cs else None)"

text \<open>The value of the \<open>ExponentPart\<close> at the head of the string, 0 when there is none.\<close>

definition parse_exponent :: "string \<Rightarrow> int" where
  "parse_exponent s =
     (case s of
        [] \<Rightarrow> 0
      | c # r \<Rightarrow>
          if c = CHR ''e'' \<or> c = CHR ''E'' then
            (let neg = (take 1 r = ''-'');
                 r' = (if take 1 r = ''-'' \<or> take 1 r = ''+'' then drop 1 r else r);
                 ds = takeWhile is_digit r'
             in if ds = [] then 0 else if neg then - dec_val ds else dec_val ds)
          else 0)"

text \<open>
  The longest prefix that is a \<open>StrUnsignedDecimalLiteral\<close> (\<open>Infinity\<close>, or digits
  with an optional fraction and an optional exponent, at least one digit before the
  exponent), and its value; \<open>NaN\<close> when no prefix is one.
\<close>

definition parse_unsigned :: "bool \<Rightarrow> string \<Rightarrow> number" where
  "parse_unsigned neg s =
     (if strip_prefix ''Infinity'' s \<noteq> None then Infinity neg
      else
        let ip = takeWhile is_digit s;
            r1 = dropWhile is_digit s;
            dot = (take 1 r1 = ''.'');
            fp = (if dot then takeWhile is_digit (drop 1 r1) else []);
            r2 = (if dot then dropWhile is_digit (drop 1 r1) else r1)
        in if ip = [] \<and> fp = [] then NaN
           else round_decimal neg (dec_val (ip @ fp)) (parse_exponent r2 - int (length fp)))"

definition parseFloat :: "string \<Rightarrow> number" where
  "parseFloat s =
     (let t = trimStart s
      in if take 1 t = ''-'' then parse_unsigned True (drop 1 t)
         else if take 1 t = ''+'' then parse_unsigned False (drop 1 t)
         else parse_unsigned False t)"

section \<open>\<open>Number::toString\<close>\<close>

fun ndigits :: "int \<Rightarrow> int" where
  "ndigits v = (if v < 10 then 1 else 1 + ndigits (v div 10))"

function lead :: "int \<Rightarrow> int \<Rightarrow> int" where
  "lead a b = (if b \<le> a \<or> a \<le> 0 then 0 else 1 + lead (10 * a) b)"
  by pat_completeness auto
termination
  by (relation "measure (\<lambda>(a, b). nat (b - a))") auto

text \<open>
  For \<open>x = m * 2^e > 0\<close>, \<open>decimal_point m e\<close> is the \<open>n\<close> with
  \<open>10^(n-1) \<le> x < 10^n\<close>.
\<close>

definition decimal_point :: "int \<Rightarrow> int \<Rightarrow> int" where
  "decimal_point m e =
     (let a = (if 0 \<le> e then m * 2 ^ nat e else m);
          b = (if 0 \<le> e then 1 else 2 ^ nat (- e))
      in if b \<le> a then ndigits (a div b) else 1 - lead a b)"

text \<open>
  The candidates with exactly \<open>k\<close> significant digits: \<open>candidates m e p\<close> with
  \<open>p = n - k\<close> looks at the two multiples of \<open>10^p\<close> around \<open>x\<close>, keeps those that
  round back to \<open>x\<close>, and of two that do takes the one nearer to \<open>x\<close> (the even one
  on a tie).  The result \<open>(s, p)\<close> stands for \<open>s * 10^p\<close>.
\<close>

definition candidates :: "bool \<Rightarrow> int \<Rightarrow> int \<Rightarrow> int \<Rightarrow> (int \<times> int) option" where
  "candidates check m e p =
     (let a = (if 0 \<le> e then m * 2 ^ nat e else m) * (if 0 \<le> p then 1 else 10 ^ nat (- p));
          b = (if 0 \<le> e then 1 else 2 ^ nat (- e)) * (if 0 \<le> p then 10 ^ nat p else 1);
          lo = a div b;
          hi = lo + 1;
          ok_lo = (if check then round_decimal False lo p = Finite False m e else True);
          ok_hi = (if check then round_decimal False hi p = Finite False m e else True);
          nearer_lo = (2 * a < (lo + hi) * b \<or> (2 * a = (lo + hi) * b \<and> even lo))
      in if ok_lo \<and> ok_hi then Some (if nearer_lo then lo else hi, p)
         else if ok_lo then Some (lo, p)
         else if ok_hi then Some (hi, p)
         else None)"

text \<open>
  The shortest decimal that identifies \<open>x\<close>: the least number \<open>k\<close> of digits is
  tried first.  Seventeen significant digits identify every binary64 value, so the
  search checks \<open>k = 1, ..., 16\<close> and takes the nearest candidate at \<open>k = 17\<close>.
\<close>

fun shortest_from :: "int \<Rightarrow> int \<Rightarrow> int \<Rightarrow> int \<Rightarrow> nat \<Rightarrow> int \<times> int" where
  "shortest_from m e n k 0 = (case candidates False m e (n - k) of Some r \<Rightarrow> r | None \<Rightarrow> (0, 0))"
| "shortest_from m e n k (Suc fuel) =
     (case candidates True m e (n - k) of
        Some r \<Rightarrow> r
      | None \<Rightarrow> shortest_from m e n (k + 1) fuel)"

fun strip10 :: "int \<Rightarrow> int \<Rightarrow> int \<times> int" where
  "strip10 s p = (if s \<le> 0 then (0, 0) else if s mod 10 = 0 then strip10 (s div 10) (p + 1) else (s, p))"

definition shortest_decimal :: "int \<Rightarrow> int \<Rightarrow> int \<times> int" where
  "shortest_decimal m e = (case shortest_from m e (decimal_point m e) 1 16 of (s, p) \<Rightarrow> strip10 s p)"

definition digit_char :: "int \<Rightarrow> char" where
  "digit_char d = ''0123456789'' ! nat d"

fun digits_of :: "int \<Rightarrow> string" where
  "digits_of v = (if v < 10 then [digit_char v] else digits_of (v div 10) @ [digit_char (v mod 10)])"

definition Number_toString :: "number \<Rightarrow> string" where
  "Number_toString x =
     (case x of
        NaN \<Rightarrow> ''NaN''
      | Infinity neg \<Rightarrow> (if neg then ''-Infinity'' else ''Infinity'')
      | Finite neg m e \<Rightarrow>
          if m \<le> 0 then ''0''
          else
            (case shortest_decimal m e of (s, p) \<Rightarrow>
               let ds = digits_of s;
                   k = int (length ds);
                   n = k + p;
                   body =
                     (if k \<le> n \<and> n \<le> 21 then ds @ replicate (nat (n - k)) CHR ''0''
                      else if 0 < n \<and> n \<le> 21 then take (nat n) ds @ ''.'' @ drop (nat n) ds
                      else if - 6 < n \<and> n \<le> 0 then ''0.'' @ replicate (nat (- n)) CHR ''0'' @ ds
                      else
                        (if k = 1 then ds else take 1 ds @ ''.'' @ drop 1 ds)
                        @ ''e'' @ (if 0 \<le> n - 1 then ''+'' else ''-'') @ digits_of (abs (n - 1)))
               in (if neg then ''-'' else []) @ body))"


section \<open>\<open>BigNumber\<close>\<close>

text \<open>
  The arbitrary-precision decimal that the crypto library exports (\<open>bignumber.js\<close>
  with its default configuration): \<open>BFinite neg c p\<close> stands for
  \<open>(-1)^neg * c * 10^p\<close>, the coefficient without trailing zeros.  Built from a number
  it takes the decimal that \<open>Number::toString\<close> prints; \<open>times\<close> is exact; \<open>toString\<close>
  uses exponential notation from exponent 21 on and up to exponent -7.  The exponent
  limits of the library (\<open>1e9\<close>) are out of reach of products of two numbers.
\<close>

datatype BigNumber = BNaN | BInfinity bool | BFinite bool int int

definition BigNumber_new :: "number \<Rightarrow> BigNumber" where
  "BigNumber_new v =
     (case v of
        NaN \<Rightarrow> BNaN
      | Infinity neg \<Rightarrow> BInfinity neg
      | Finite neg m e \<Rightarrow>
          if m \<le> 0 then BFinite neg 0 0
          else case shortest_decimal m e of (s, p) \<Rightarrow> BFinite neg s p)"

definition BigNumber_times :: "BigNumber \<Rightarrow> BigNumber \<Rightarrow> BigNumber" where
  "BigNumber_times x y =
     (case x of
        BNaN \<Rightarrow> BNaN
      | BInfinity a \<Rightarrow>
          (case y of
             BNaN \<Rightarrow> BNaN
           | BInfinity b \<Rightarrow> BInfinity (a \<noteq> b)
           | BFinite b d q \<Rightarrow> if d = 0 then BNaN else BInfinity (a \<noteq> b))
      | BFinite a c p \<Rightarrow>
          (case y of
             BNaN \<Rightarrow> BNaN
           | BInfinity b \<Rightarrow> if c = 0 then BNaN else BInfinity (a \<noteq> b)
           | BFinite b d q \<Rightarrow>
               if c = 0 \<or> d = 0 then BFinite (a \<noteq> b) 0 0
               else case strip10 (c * d) (p + q) of (s, r) \<Rightarrow> BFinite (a \<noteq> b) s r))"

definition BigNumber_toString :: "BigNumber \<Rightarrow> string" where
  "BigNumber_toString x =
     (case x of
        BNaN \<Rightarrow> ''NaN''
      | BInfinity neg \<Rightarrow> (if neg then ''-Infinity'' else ''Infinity'')
      | BFinite neg c p \<Rightarrow>
          if c \<le> 0 then ''0''
          else
            let ds = digits_of c;
                len = int (length ds);
                e = len - 1 + p;
                str =
                  (if e \<le> - 7 \<or> 21 \<le> e then
                     (if 1 < len then take 1 ds @ ''.'' @ drop 1 ds else ds)
                     @ (if e < 0 then ''e-'' else ''e+'') @ digits_of (abs e)
                   else if e < 0 then ''0.'' @ replicate (nat (- e - 1)) CHR ''0'' @ ds
                   else if len < e + 1 then ds @ replicate (nat (e + 1 - len)) CHR ''0''
                   else if e + 1 < len then take (nat (e + 1)) ds @ ''.'' @ drop (nat (e + 1)) ds
                   else ds)
            in (if neg then ''-'' else []) @ str)"

text \<open>
  \<^verbatim>\<open>`${new BigNumber(userState.withdrawalAmount).times(1e18)}`\<close>: the literal
  \<open>1e18\<close> is the number nearest to \<open>10^18\<close>.
\<close>

definition txAmountInWei_of :: "number \<Rightarrow> string" where
  "txAmountInWei_of amount =
     BigNumber_toString
       (BigNumber_times (BigNumber_new amount) (BigNumber_new (round_decimal False 1 18)))"

section \<open>\<open>JSON.stringify\<close> and string helpers\<close>

definition hex_digit :: "nat \<Rightarrow> char" where
  "hex_digit d = ''0123456789abcdef'' ! d"

definition JSON_escape :: "char \<Rightarrow> string" where
  "JSON_escape c =
     (let n = (of_char c :: nat)
      in if n = 0x22 then [CHR 0x5C, CHR 0x22]
         else if n = 0x5C then [CHR 0x5C, CHR 0x5C]
         else if n = 0x08 then [CHR 0x5C, CHR ''b'']
         else if n = 0x09 then [CHR 0x5C, CHR ''t'']
         else if n = 0x0A then [CHR 0x5C, CHR ''n'']
         else if n = 0x0C then [CHR 0x5C, CHR ''f'']
         else if n = 0x0D then [CHR 0x5C, CHR ''r'']
         else if n < 0x20 then [CHR 0x5C, CHR ''u'', CHR ''0'', CHR ''0'', hex_digit (n div 16), hex_digit (n mod 16)]
         else [c])"

definition JSON_quote :: "string \<Rightarrow> string" where
  "JSON_quote s = [CHR 0x22] @ concat (map JSON_escape s) @ [CHR 0x22]"

fun intercalate :: "string \<Rightarrow> string list \<Rightarrow> string" where
  "intercalate sep [] = []"
| "intercalate sep [x] = x"
| "intercalate sep (x # y # ys) = x @ sep @ intercalate sep (y # ys)"

text \<open>
  An object literal whose property values are strings or \<open>undefined\<close> (\<open>None\<close>);
  \<open>JSON.stringify\<close> leaves out the properties that are \<open>undefined\<close>.
\<close>

type_synonym json_object = "(string \<times> string option) list"

definition JSON_stringify :: "json_object \<Rightarrow> string" where
  "JSON_stringify obj =
     ''{'' @ intercalate '',''
       (concat (map (\<lambda>(k, v). case v of None \<Rightarrow> [] | Some x \<Rightarrow> [JSON_quote k @ '':'' @ JSON_quote x]) obj))
     @ ''}''"

text \<open>
  \<open>toUpperCase\<close> as it acts on ASCII text: the letters \<open>a\<close> to \<open>z\<close> become
  \<open>A\<close> to \<open>Z\<close> and every other byte stays.  On a string with a letter outside
  ASCII the language's function does more, and the model says nothing: what is proved of
  \<open>getHeaders\<close> is proved for ASCII methods, which the methods of HTTP are.
\<close>

definition toUpperCase :: "string \<Rightarrow> string" where
  "toUpperCase s =
     map (\<lambda>c. let n = (of_char c :: nat) in if 97 \<le> n \<and> n \<le> 122 then char_of (n - 32) else c) s"

text \<open>How a template literal prints a property that holds a string or is absent.\<close>

definition template :: "string option \<Rightarrow> string" where
  "template v = (case v of None \<Rightarrow> ''undefined'' | Some s \<Rightarrow> s)"

definition truthy_string :: "string option \<Rightarrow> bool" where
  "truthy_string v = (case v of None \<Rightarrow> False | Some s \<Rightarrow> s \<noteq> [])"

text \<open>
  What \<open>validAddress\<close> may resolve to: a boolean, or an object with the verdict and
  the address, which is what the wallet library returns.  An object is truthy whatever it
  holds.
\<close>

record ValidAddressData =
  isValid :: bool
  va_address :: string

datatype js_value = Boolean bool | Object ValidAddressData

definition truthy :: "js_value \<Rightarrow> bool" where
  "truthy v = (case v of Boolean b \<Rightarrow> b | Object d \<Rightarrow> True)"

section \<open>Session store\<close>

text \<open>
  One session object per user, every property optional; \<open>userStates\<close> maps user ids to
  sessions.  \<open>updateUserState\<close> spreads the old session and then the given properties.
\<close>

record session =
  messageId :: "int option"
  address :: "string option"
  privateKey :: "string option"
  publicKey :: "string option"
  withdrawalRequested :: "bool option"
  withdrawalAmount :: "number option"

definition empty_session :: session where
  "empty_session =
     \<lparr>messageId = None, address = None, privateKey = None, publicKey = None,
      withdrawalRequested = None, withdrawalAmount = None\<rparr>"

definition or_else :: "'a option \<Rightarrow> 'a option \<Rightarrow> 'a option" where
  "or_else new old = (case new of None \<Rightarrow> old | Some v \<Rightarrow> Some v)"

definition spread :: "session \<Rightarrow> session \<Rightarrow> session" where
  "spread old state =
     \<lparr>messageId = or_else (messageId state) (messageId old),
      address = or_else (address state) (address old),
      privateKey = or_else (privateKey state) (privateKey old),
      publicKey = or_else (publicKey state) (publicKey old),
      withdrawalRequested = or_else (withdrawalRequested state) (withdrawalRequested old),
      withdrawalAmount = or_else (withdrawalAmount state) (withdrawalAmount old)\<rparr>"

section \<open>The outside world\<close>

text \<open>
  Modelled from the spec: the response envelopes of the remote API, whose declarations
  are not in the repository.  Section 6 of the specification gives their shape:
  \<open>{code, msg, data: [{nonce, gasPrice: {normal}, gasLimit}]}\<close> for sign-info and
  \<open>{code, msg, data: [{orderId}]}\<close> for broadcast.  Scalars are kept as the strings
  a template literal prints for them, \<open>None\<close> is \<open>undefined\<close>; an absent \<open>data\<close> and
  an empty one both make \<open>data[0]\<close> undefined and are the empty list.  For
  \<open>gasPrice\<close> the outer \<open>None\<close> is an entry without the \<open>gasPrice\<close> object, where
  reading \<open>gasPrice.normal\<close> throws, and \<open>Some v\<close> is the value of \<open>normal\<close>.
\<close>

record data_entry =
  nonce :: "string option"
  gasPrice :: "string option option"
  gasLimit :: "string option"
  orderId :: "string option"

record response =
  code :: string
  msg :: "string option"
  data :: "data_entry list"

record request =
  url :: string
  http_method :: string
  headers :: "(string \<times> string) list"
  body :: string

record txParams =
  tx_to :: string
  tx_value :: string
  tx_nonce :: "string option"
  tx_gasPrice :: "string option"
  tx_gasLimit :: "string option"
  tx_chainId :: string

datatype js_error = Error string | TypeError | Rejected

datatype log_entry =
    TransactionParams txParams
  | SignedTransaction string
  | BroadcastResponse response
  | ErrorDuringWithdrawal js_error

datatype reply_options = NoOptions | ForceReply | Markdown

text \<open>
  What the bot does to the outside, in order: a message sent to a user's chat, a request
  sent to the remote API together with the parsed response it got (\<open>None\<close> when the
  call or the parsing of its JSON failed), a line on the console.
\<close>

datatype event =
    Reply int string reply_options
  | Fetch request "response option"
  | Log log_entry

text \<open>
  The environment: the process's environment variables, the library functions (a result
  of \<open>None\<close> is a rejected promise or a thrown exception), and what the outside answers.
  Every interaction advances the world's \<open>tick\<close>, and the answers of the clock, of the
  chat service, of the random generator and of the remote API may depend on it.
  \<open>validAddress\<close> gives the value that the wallet library's promise resolves to;
  \<open>signTransaction first privateKey data\<close> is the call
  \<^verbatim>\<open>wallet.signTransaction(first, {privateKey, data})\<close> as the bot makes it, with the
  chain id as first argument and the object as second.
  \<open>hmac_sha256_base64 key s\<close> stands for
  \<^verbatim>\<open>crypto.createHmac("sha256", key).update(s).digest("base64")\<close>.
  Handlers run one at a time, each to its end, as the bot's long polling delivers the
  updates; a message sent to the chat is taken to be delivered.
\<close>

record env =
  OKX_API_KEY :: string
  OKX_API_SECRET_KEY :: string
  OKX_API_PASSPHRASE :: string
  OKX_PROJECT_ID :: string
  hmac_sha256_base64 :: "string \<Rightarrow> string \<Rightarrow> string"
  toISOString_now :: "nat \<Rightarrow> string"
  message_id :: "nat \<Rightarrow> int"
  generateMnemonic :: "nat \<Rightarrow> string option"
  getDerivedPath :: "nat \<Rightarrow> string option"
  getDerivedPrivateKey :: "string \<Rightarrow> string \<Rightarrow> string option"
  getNewAddress :: "string \<Rightarrow> (string \<times> string) option"
  validAddress :: "string \<Rightarrow> js_value option"
  signTransaction :: "int \<Rightarrow> string option \<Rightarrow> txParams \<Rightarrow> string option"
  fetch_json :: "nat \<Rightarrow> request \<Rightarrow> response option"

record world =
  userStates :: "int \<Rightarrow> session option"
  trace :: "event list"
  tick :: nat

text \<open>An incoming update: the sender, the text, the message it replies to.\<close>

record ctx =
  from_id :: int
  message_text :: string
  reply_to_message_id :: "int option"


section \<open>Helper functions of the bot\<close>

definition apiBaseUrl :: string where
  "apiBaseUrl = ''https://www.okx.com''"

definition xLayerChainId :: string where
  "xLayerChainId = ''196''"

text \<open>\<^verbatim>\<open>userStates[id] || {}\<close>\<close>

definition userState_of :: "world \<Rightarrow> int \<Rightarrow> session" where
  "userState_of w user = (case userStates w user of None \<Rightarrow> empty_session | Some s \<Rightarrow> s)"

definition updateUserState :: "int \<Rightarrow> session \<Rightarrow> world \<Rightarrow> world" where
  "updateUserState user state w =
     w\<lparr>userStates := (userStates w)(user := Some (spread (userState_of w user) state))\<rparr>"

text \<open>Defined by the bot and never called: each of its calls is commented out.\<close>

definition clearUserState :: "int \<Rightarrow> world \<Rightarrow> world" where
  "clearUserState user w = w\<lparr>userStates := (userStates w)(user := None)\<rparr>"

text \<open>\<open>ctx.reply\<close>: the message goes out and the chat service returns its id.\<close>

definition ctx_reply :: "env \<Rightarrow> ctx \<Rightarrow> string \<Rightarrow> reply_options \<Rightarrow> world \<Rightarrow> int \<times> world" where
  "ctx_reply env ctx txt options w =
     (message_id env (tick w),
      w\<lparr>trace := trace w @ [Reply (from_id ctx) txt options], tick := tick w + 1\<rparr>)"

definition sendReply :: "env \<Rightarrow> ctx \<Rightarrow> string \<Rightarrow> reply_options \<Rightarrow> world \<Rightarrow> world" where
  "sendReply env ctx txt options w =
     (case ctx_reply env ctx txt options w of
        (mid, w1) \<Rightarrow> updateUserState (from_id ctx) (empty_session\<lparr>messageId := Some mid\<rparr>) w1)"

text \<open>
  \<open>getRequestUrl\<close> as every call in the bot uses it: no query parameters, and an
  absolute path of letters, digits, \<open>/\<close> and \<open>-\<close>, which the URL parser leaves as
  it is.  The \<open>params\<close> argument and the parser's normalisation of other paths are not
  modelled.
\<close>

definition getRequestUrl :: "string \<Rightarrow> string" where
  "getRequestUrl path = apiBaseUrl @ path"

definition getHeaders ::
  "env \<Rightarrow> string \<Rightarrow> string \<Rightarrow> string option \<Rightarrow> world \<Rightarrow> (string \<times> string) list \<times> world" where
  "getHeaders env method path body_arg w =
     (let body = (case body_arg of None \<Rightarrow> [] | Some b \<Rightarrow> b);
          timestamp = toISOString_now env (tick w);
          signString = timestamp @ toUpperCase method @ path @ body;
          signature = hmac_sha256_base64 env (OKX_API_SECRET_KEY env) signString
      in ([(''Content-Type'', ''application/json''),
           (''OK-ACCESS-KEY'', OKX_API_KEY env),
           (''OK-ACCESS-SIGN'', signature),
           (''OK-ACCESS-TIMESTAMP'', timestamp),
           (''OK-ACCESS-PASSPHRASE'', OKX_API_PASSPHRASE env),
           (''OK-ACCESS-PROJECT'', OKX_PROJECT_ID env)],
          w\<lparr>tick := tick w + 1\<rparr>))"

text \<open>\<open>fetch\<close> followed by \<open>response.json()\<close>.\<close>

definition fetch :: "env \<Rightarrow> request \<Rightarrow> world \<Rightarrow> response option \<times> world" where
  "fetch env req w =
     (let r = fetch_json env (tick w) req
      in (r, w\<lparr>trace := trace w @ [Fetch req r], tick := tick w + 1\<rparr>))"

definition console_log :: "log_entry \<Rightarrow> world \<Rightarrow> world" where
  "console_log entry w = w\<lparr>trace := trace w @ [Log entry]\<rparr>"

section \<open>Handlers\<close>

definition handleUserState :: "env \<Rightarrow> ctx \<Rightarrow> (ctx \<Rightarrow> world \<Rightarrow> world) \<Rightarrow> world \<Rightarrow> world" where
  "handleUserState env ctx handler w =
     (let userState = userState_of w (from_id ctx)
      in if (case reply_to_message_id ctx of
               None \<Rightarrow> False
             | Some mid \<Rightarrow> messageId userState = Some mid)
         then handler ctx w
         else snd (ctx_reply env ctx ''Please select an option from the menu.'' NoOptions w))"

definition getOrCreateAddress :: "env \<Rightarrow> int \<Rightarrow> world \<Rightarrow> (js_error + string) \<times> world" where
  "getOrCreateAddress env user w =
     (case (if truthy_string (address (userState_of w user))
            then address (userState_of w user) else None) of
        Some a \<Rightarrow> (Inr a, w)
      | None \<Rightarrow>
          (let w1 = w\<lparr>tick := tick w + 1\<rparr>
           in case generateMnemonic env (tick w) of
                None \<Rightarrow> (Inl Rejected, w1)
              | Some mnemonic \<Rightarrow>
                  (case getDerivedPath env 0 of
                     None \<Rightarrow> (Inl Rejected, w1)
                   | Some hdPath \<Rightarrow>
                       (case getDerivedPrivateKey env mnemonic hdPath of
                          None \<Rightarrow> (Inl Rejected, w1)
                        | Some derivePrivateKey \<Rightarrow>
                            (case getNewAddress env derivePrivateKey of
                               None \<Rightarrow> (Inl Rejected, w1)
                             | Some (newAddress, newPublicKey) \<Rightarrow>
                                 (Inr newAddress,
                                  updateUserState user
                                    (empty_session
                                       \<lparr>address := Some newAddress,
                                        privateKey := Some derivePrivateKey,
                                        publicKey := Some newPublicKey\<rparr>) w1))))))"

definition handleInitialWithdrawal :: "env \<Rightarrow> ctx \<Rightarrow> world \<Rightarrow> world" where
  "handleInitialWithdrawal env ctx w =
     sendReply env ctx ''Please respond with the amount of OKB you want to withdraw.'' ForceReply
       (updateUserState (from_id ctx) (empty_session\<lparr>withdrawalRequested := Some True\<rparr>) w)"

text \<open>
  The \<open>try\<close> block of \<open>handleWithdrawal\<close>: the result is the exception that left the
  block, if one did, and the world as the block left it.  \<open>userState\<close> is the session
  object read when the handler started.  \<open>new Error(undefined)\<close> has the empty message;
  reading a property of \<open>data[0]\<close> or of \<open>gasPrice\<close> when that is undefined throws a
  \<open>TypeError\<close>.
\<close>

definition try_withdrawal ::
  "env \<Rightarrow> ctx \<Rightarrow> session \<Rightarrow> number \<Rightarrow> world \<Rightarrow> js_error option \<times> world" where
  "try_withdrawal env ctx userState amount w =
     (let destination = message_text ctx
      in case validAddress env destination of
           None \<Rightarrow> (Some Rejected, w)
         | Some isValidAddress \<Rightarrow>
             if \<not> truthy isValidAddress then
               (None, snd (ctx_reply env ctx ''Invalid destination address. Please try again.'' NoOptions w))
             else
               let w1 = sendReply env ctx ''Initiating withdrawal...'' NoOptions w;
                   txAmountInWei = txAmountInWei_of amount;
                   signInfoBody = JSON_stringify
                     [(''chainIndex'', Some xLayerChainId),
                      (''fromAddr'', address userState),
                      (''toAddr'', Some destination),
                      (''txAmount'', Some txAmountInWei)]
               in case getHeaders env ''POST'' ''/api/v5/wallet/pre-transaction/sign-info''
                         (Some signInfoBody) w1 of
                 (signInfoHeaders, w2) \<Rightarrow>
               case fetch env
                      \<lparr>url = getRequestUrl ''/api/v5/wallet/pre-transaction/sign-info'',
                       http_method = ''POST'', headers = signInfoHeaders, body = signInfoBody\<rparr> w2 of
                 (None, w3) \<Rightarrow> (Some Rejected, w3)
               | (Some signInfoData, w3) \<Rightarrow>
               if code signInfoData \<noteq> ''0'' then
                 (Some (Error (case msg signInfoData of None \<Rightarrow> [] | Some m \<Rightarrow> m)), w3)
               else
               case data signInfoData of
                 [] \<Rightarrow> (Some TypeError, w3)
               | txData # _ \<Rightarrow>
               case gasPrice txData of
                 None \<Rightarrow> (Some TypeError, w3)
               | Some normal \<Rightarrow>
               let txParams =
                     \<lparr>tx_to = destination, tx_value = txAmountInWei, tx_nonce = nonce txData,
                      tx_gasPrice = normal, tx_gasLimit = gasLimit txData,
                      tx_chainId = xLayerChainId\<rparr>;
                   w4 = console_log (TransactionParams txParams) w3
               in case signTransaction env 196 (privateKey userState) txParams of
                 None \<Rightarrow> (Some Rejected, w4)
               | Some signedTx \<Rightarrow>
               let w5 = console_log (SignedTransaction signedTx) w4;
                   broadcastBody = JSON_stringify
                     [(''signedTx'', Some signedTx),
                      (''chainIndex'', Some xLayerChainId),
                      (''address'', address userState)]
               in case getHeaders env ''POST'' ''/api/v5/wallet/pre-transaction/broadcast-transaction''
                         (Some broadcastBody) w5 of
                 (broadcastHeaders, w6) \<Rightarrow>
               case fetch env
                      \<lparr>url = getRequestUrl ''/api/v5/wallet/pre-transaction/broadcast-transaction'',
                       http_method = ''POST'', headers = broadcastHeaders, body = broadcastBody\<rparr> w6 of
                 (None, w7) \<Rightarrow> (Some Rejected, w7)
               | (Some broadcastData, w7) \<Rightarrow>
               let w8 = console_log (BroadcastResponse broadcastData) w7
               in if code broadcastData = ''0'' then
                    (case data broadcastData of
                       [] \<Rightarrow> (Some TypeError, w8)
                     | d # _ \<Rightarrow>
                         (None,
                          sendReply env ctx
                            (''Successfully initiated withdrawal of '' @ Number_toString amount
                             @ '' OKB to '' @ destination
                             @ ''. Transaction ID: '' @ template (orderId d))
                            Markdown w8))
                  else
                    (Some (Error (if truthy_string (msg broadcastData)
                                  then template (msg broadcastData)
                                  else ''Failed to broadcast transaction'')), w8))"

definition handleWithdrawal :: "env \<Rightarrow> ctx \<Rightarrow> world \<Rightarrow> world" where
  "handleWithdrawal env ctx w =
     (let userState = userState_of w (from_id ctx)
      in if \<not> truthy_number (withdrawalAmount userState) then
           (let amount = parseFloat (message_text ctx)
            in if isNaN amount \<or> le_zero amount then
                 snd (ctx_reply env ctx
                        ''Invalid withdrawal amount. Please enter a positive number.'' NoOptions w)
               else
                 updateUserState (from_id ctx) (empty_session\<lparr>withdrawalAmount := Some amount\<rparr>)
                   (sendReply env ctx
                      ''Please respond with the XLayer address where you would like to receive the OKB.''
                      ForceReply w))
         else
           (case withdrawalAmount userState of
              None \<Rightarrow> w
            | Some amount \<Rightarrow>
                (case try_withdrawal env ctx userState amount w of
                   (None, w') \<Rightarrow> w'
                 | (Some error, w') \<Rightarrow>
                     snd (ctx_reply env ctx ''An error occurred while initiating the withdrawal.''
                            NoOptions (console_log (ErrorDuringWithdrawal error) w')))))"

text \<open>The listener for text messages.\<close>

definition on_message_text :: "env \<Rightarrow> ctx \<Rightarrow> world \<Rightarrow> world" where
  "on_message_text env ctx w =
     handleUserState env ctx
       (\<lambda>c w'. if withdrawalRequested (userState_of w' (from_id ctx)) = Some True
               then handleWithdrawal env ctx w' else w') w"


section \<open>Observing a run\<close>

text \<open>The events that running \<open>f\<close> from \<open>w\<close> adds to the trace.\<close>

definition emitted :: "(world \<Rightarrow> world) \<Rightarrow> world \<Rightarrow> event list" where
  "emitted f w = drop (length (trace w)) (trace (f w))"

text \<open>Every request that got a parsed response, with the events that came after it.\<close>

fun answered :: "event list \<Rightarrow> (request \<times> response \<times> event list) list" where
  "answered [] = []"
| "answered (Fetch req (Some r) # es) = (req, r, es) # answered es"
| "answered (e # es) = answered es"

fun is_Fetch :: "event \<Rightarrow> bool" where
  "is_Fetch (Fetch req r) = True"
| "is_Fetch e = False"

section \<open>Concrete environments\<close>

text \<open>
  Environments and worlds on which the theorems below are run.  The remote API answers a
  sign-info request with \<open>sign_info_response\<close> and a broadcast request with
  \<open>broadcast_response\<close>.  User 1 appears before a withdrawal, after the withdraw
  button, and with an amount captured.
\<close>

definition sign_info_response :: response where
  "sign_info_response =
     \<lparr>code = ''0'', msg = None,
      data = [\<lparr>nonce = Some ''1'', gasPrice = Some (Some ''100''), gasLimit = Some ''21000'',
               orderId = None\<rparr>]\<rparr>"

definition broadcast_response :: response where
  "broadcast_response =
     \<lparr>code = ''0'', msg = None,
      data = [\<lparr>nonce = None, gasPrice = None, gasLimit = None, orderId = Some ''order-7''\<rparr>]\<rparr>"

definition remote_api :: "nat \<Rightarrow> request \<Rightarrow> response option" where
  "remote_api t r =
     (if url r = getRequestUrl ''/api/v5/wallet/pre-transaction/sign-info''
        then Some sign_info_response
      else if url r = getRequestUrl ''/api/v5/wallet/pre-transaction/broadcast-transaction''
        then Some broadcast_response
      else None)"

text \<open>
  \<open>demo_env\<close> has a wallet library as the handler expects one: \<open>validAddress\<close>
  resolves to a boolean and \<open>signTransaction\<close> signs when called as the bot calls it.
\<close>

definition demo_env :: env where
  "demo_env =
     \<lparr>OKX_API_KEY = ''key'', OKX_API_SECRET_KEY = ''secret'', OKX_API_PASSPHRASE = ''pass'',
      OKX_PROJECT_ID = ''proj'',
      hmac_sha256_base64 = (\<lambda>k s. ''sig''),
      toISOString_now = (\<lambda>t. ''2024-01-01T00:00:00.000Z''),
      message_id = (\<lambda>t. 100 + int t),
      generateMnemonic = (\<lambda>t. Some ''mnemonic''),
      getDerivedPath = (\<lambda>i. Some ''path''),
      getDerivedPrivateKey = (\<lambda>m p. Some ''sk''),
      getNewAddress = (\<lambda>k. Some (''0xabc'', ''pk'')),
      validAddress = (\<lambda>a. Some (Boolean (a = ''0xdef''))),
      signTransaction = (\<lambda>c k p. Some ''0xsigned''),
      fetch_json = remote_api\<rparr>"

text \<open>
  \<open>library_env\<close> has the wallet library as it is.  Its \<open>validAddress\<close> resolves to
  the object \<open>{isValid, address}\<close> for every string (the verdict here: \<open>0x\<close> followed
  by forty hexadecimal digits) and does not reject.  Its \<open>signTransaction\<close> takes one
  argument, the object \<open>{privateKey, data}\<close>: called with the chain id in that place it
  finds neither property on the number, fails on reading the transaction data, and
  rejects; the object passed as second argument is never read.
\<close>

definition is_hex_address :: "string \<Rightarrow> bool" where
  "is_hex_address a =
     (length a = 42 \<and> take 2 a = ''0x''
      \<and> list_all (\<lambda>c. c \<in> set ''0123456789abcdefABCDEF'') (drop 2 a))"

definition library_validAddress :: "string \<Rightarrow> js_value option" where
  "library_validAddress a = Some (Object \<lparr>isValid = is_hex_address a, va_address = a\<rparr>)"

definition library_signTransaction :: "int \<Rightarrow> string option \<Rightarrow> txParams \<Rightarrow> string option" where
  "library_signTransaction param privateKey_of_second data_of_second = None"

definition library_env :: env where
  "library_env =
     demo_env\<lparr>validAddress := library_validAddress, signTransaction := library_signTransaction\<rparr>"

text \<open>The same with a remote API that answers every request with an error code.\<close>

definition failing_env :: env where
  "failing_env =
     library_env\<lparr>fetch_json := (\<lambda>t r. Some \<lparr>code = ''50011'', msg = Some ''busy'', data = []\<rparr>)\<rparr>"

text \<open>An environment whose HMAC shows the key and the string it was given.\<close>

definition echo_env :: env where
  "echo_env = demo_env\<lparr>hmac_sha256_base64 := (\<lambda>k s. k @ ''|'' @ s)\<rparr>"

definition demo_session :: session where
  "demo_session =
     \<lparr>messageId = Some 5, address = Some ''0xabc'', privateKey = Some ''sk'',
      publicKey = Some ''pk'', withdrawalRequested = None, withdrawalAmount = None\<rparr>"

definition world_of :: "session option \<Rightarrow> world" where
  "world_of s = \<lparr>userStates = (\<lambda>user. if user = 1 then s else None), trace = [], tick = 0\<rparr>"

definition fresh_world :: world where
  "fresh_world = world_of None"

definition idle_world :: world where
  "idle_world = world_of (Some demo_session)"

definition amount_requested_world :: world where
  "amount_requested_world = world_of (Some (demo_session\<lparr>withdrawalRequested := Some True\<rparr>))"

definition amount_captured_world :: world where
  "amount_captured_world =
     world_of (Some (demo_session\<lparr>withdrawalRequested := Some True,
                                  withdrawalAmount := Some (Finite False 5 (- 1))\<rparr>))"

definition message :: "string \<Rightarrow> int option \<Rightarrow> ctx" where
  "message txt reply_to = \<lparr>from_id = 1, message_text = txt, reply_to_message_id = reply_to\<rparr>"

section \<open>Symbolic execution of the withdrawal handler\<close>

text \<open>
  In the destination phase the handler runs one withdrawal attempt.  The attempt ends in
  one of eleven ways, told apart by what the wallet library and the remote API answer;
  for each the lemma gives the events of the attempt and the session table it leaves.
\<close>

lemmas io_defs = ctx_reply_def sendReply_def updateUserState_def getHeaders_def fetch_def console_log_def

lemma spread_messageId:
  "spread s (empty_session\<lparr>messageId := Some m\<rparr>) = s\<lparr>messageId := Some m\<rparr>"
  by (simp add: spread_def empty_session_def or_else_def)

lemma userState_of_update [simp]:
  "userState_of (w\<lparr>trace := t\<rparr>) = userState_of w"
  "userState_of (w\<lparr>tick := n\<rparr>) = userState_of w"
  "userState_of (w\<lparr>userStates := f\<rparr>) x = (case f x of None \<Rightarrow> empty_session | Some s \<Rightarrow> s)"
  by (simp_all add: userState_of_def fun_eq_iff)

lemma destination_cases:
  fixes env :: env and ctx :: ctx and w :: world and amount :: number
  defines "u \<equiv> from_id ctx"
    and "s \<equiv> userState_of w (from_id ctx)"
    and "dest \<equiv> message_text ctx"
    and "new \<equiv> emitted (handleWithdrawal env ctx) w"
    and "S' \<equiv> userStates (handleWithdrawal env ctx w)"
    and "failure \<equiv> Reply (from_id ctx) ''An error occurred while initiating the withdrawal.'' NoOptions"
    and "initiating \<equiv> Reply (from_id ctx) ''Initiating withdrawal...'' NoOptions"
    and "url1 \<equiv> getRequestUrl ''/api/v5/wallet/pre-transaction/sign-info''"
    and "url2 \<equiv> getRequestUrl ''/api/v5/wallet/pre-transaction/broadcast-transaction''"
    and "body1 \<equiv> JSON_stringify
                     [(''chainIndex'', Some xLayerChainId),
                      (''fromAddr'', address (userState_of w (from_id ctx))),
                      (''toAddr'', Some (message_text ctx)),
                      (''txAmount'', Some (txAmountInWei_of amount))]"
    and "body2 \<equiv> \<lambda>signedTx. JSON_stringify
                     [(''signedTx'', Some signedTx),
                      (''chainIndex'', Some xLayerChainId),
                      (''address'', address (userState_of w (from_id ctx)))]"
    and "params \<equiv> \<lambda>txData normal.
                     \<lparr>tx_to = message_text ctx, tx_value = txAmountInWei_of amount,
                      tx_nonce = nonce txData, tx_gasPrice = normal, tx_gasLimit = gasLimit txData,
                      tx_chainId = xLayerChainId\<rparr>"
  assumes amt: "withdrawalAmount s = Some amount" "truthy_number (Some amount)"
  obtains
    (validation_rejected)
      "validAddress env dest = None"
      "new = [Log (ErrorDuringWithdrawal Rejected), failure]"
      "S' = userStates w"
  | (invalid)
      "\<exists>v. validAddress env dest = Some v \<and> \<not> truthy v"
      "new = [Reply u ''Invalid destination address. Please try again.'' NoOptions]"
      "S' = userStates w"
  | (sign_info_rejected) req1 m where
      "\<exists>v. validAddress env dest = Some v \<and> truthy v"
      "url req1 = url1" "body req1 = body1"
      "new = [initiating, Fetch req1 None, Log (ErrorDuringWithdrawal Rejected), failure]"
      "S' = (userStates w)(u := Some (s\<lparr>messageId := Some m\<rparr>))"
  | (sign_info_failed) req1 r1 m where
      "\<exists>v. validAddress env dest = Some v \<and> truthy v"
      "url req1 = url1" "body req1 = body1"
      "code r1 \<noteq> ''0''"
      "new = [initiating, Fetch req1 (Some r1),
              Log (ErrorDuringWithdrawal (Error (case msg r1 of None \<Rightarrow> [] | Some m \<Rightarrow> m))), failure]"
      "S' = (userStates w)(u := Some (s\<lparr>messageId := Some m\<rparr>))"
  | (sign_info_no_data) req1 r1 m where
      "\<exists>v. validAddress env dest = Some v \<and> truthy v"
      "url req1 = url1" "body req1 = body1"
      "code r1 = ''0''" "data r1 = [] \<or> (\<exists>txData ds. data r1 = txData # ds \<and> gasPrice txData = None)"
      "new = [initiating, Fetch req1 (Some r1), Log (ErrorDuringWithdrawal TypeError), failure]"
      "S' = (userStates w)(u := Some (s\<lparr>messageId := Some m\<rparr>))"
  | (sign_rejected) req1 r1 txData ds normal m where
      "\<exists>v. validAddress env dest = Some v \<and> truthy v"
      "url req1 = url1" "body req1 = body1"
      "code r1 = ''0''" "data r1 = txData # ds" "gasPrice txData = Some normal"
      "signTransaction env 196 (privateKey s) (params txData normal) = None"
      "new = [initiating, Fetch req1 (Some r1), Log (TransactionParams (params txData normal)),
              Log (ErrorDuringWithdrawal Rejected), failure]"
      "S' = (userStates w)(u := Some (s\<lparr>messageId := Some m\<rparr>))"
  | (broadcast_rejected) req1 r1 txData ds normal signedTx req2 m where
      "\<exists>v. validAddress env dest = Some v \<and> truthy v"
      "url req1 = url1" "body req1 = body1"
      "code r1 = ''0''" "data r1 = txData # ds" "gasPrice txData = Some normal"
      "signTransaction env 196 (privateKey s) (params txData normal) = Some signedTx"
      "url req2 = url2" "body req2 = body2 signedTx"
      "new = [initiating, Fetch req1 (Some r1), Log (TransactionParams (params txData normal)),
              Log (SignedTransaction signedTx), Fetch req2 None,
              Log (ErrorDuringWithdrawal Rejected), failure]"
      "S' = (userStates w)(u := Some (s\<lparr>messageId := Some m\<rparr>))"
  | (broadcast_failed) req1 r1 txData ds normal signedTx req2 r2 m where
      "\<exists>v. validAddress env dest = Some v \<and> truthy v"
      "url req1 = url1" "body req1 = body1"
      "code r1 = ''0''" "data r1 = txData # ds" "gasPrice txData = Some normal"
      "signTransaction env 196 (privateKey s) (params txData normal) = Some signedTx"
      "url req2 = url2" "body req2 = body2 signedTx"
      "code r2 \<noteq> ''0''"
      "new = [initiating, Fetch req1 (Some r1), Log (TransactionParams (params txData normal)),
              Log (SignedTransaction signedTx), Fetch req2 (Some r2), Log (BroadcastResponse r2),
              Log (ErrorDuringWithdrawal
                     (Error (if truthy_string (msg r2) then template (msg r2)
                             else ''Failed to broadcast transaction''))), failure]"
      "S' = (userStates w)(u := Some (s\<lparr>messageId := Some m\<rparr>))"
  | (broadcast_no_data) req1 r1 txData ds normal signedTx req2 r2 m where
      "\<exists>v. validAddress env dest = Some v \<and> truthy v"
      "url req1 = url1" "body req1 = body1"
      "code r1 = ''0''" "data r1 = txData # ds" "gasPrice txData = Some normal"
      "signTransaction env 196 (privateKey s) (params txData normal) = Some signedTx"
      "url req2 = url2" "body req2 = body2 signedTx"
      "code r2 = ''0''" "data r2 = []"
      "new = [initiating, Fetch req1 (Some r1), Log (TransactionParams (params txData normal)),
              Log (SignedTransaction signedTx), Fetch req2 (Some r2), Log (BroadcastResponse r2),
              Log (ErrorDuringWithdrawal TypeError), failure]"
      "S' = (userStates w)(u := Some (s\<lparr>messageId := Some m\<rparr>))"
  | (success) req1 r1 txData ds normal signedTx req2 r2 d ds' m where
      "\<exists>v. validAddress env dest = Some v \<and> truthy v"
      "url req1 = url1" "body req1 = body1"
      "code r1 = ''0''" "data r1 = txData # ds" "gasPrice txData = Some normal"
      "signTransaction env 196 (privateKey s) (params txData normal) = Some signedTx"
      "url req2 = url2" "body req2 = body2 signedTx"
      "code r2 = ''0''" "data r2 = d # ds'"
      "new = [initiating, Fetch req1 (Some r1), Log (TransactionParams (params txData normal)),
              Log (SignedTransaction signedTx), Fetch req2 (Some r2), Log (BroadcastResponse r2),
              Reply u (''Successfully initiated withdrawal of '' @ Number_toString amount
                       @ '' OKB to '' @ dest @ ''. Transaction ID: '' @ template (orderId d)) Markdown]"
      "S' = (userStates w)(u := Some (s\<lparr>messageId := Some m\<rparr>))"
proof -
  let ?w1 = "sendReply env ctx ''Initiating withdrawal...'' NoOptions w"
  let ?hw = "getHeaders env ''POST'' ''/api/v5/wallet/pre-transaction/sign-info'' (Some body1) ?w1"
  let ?req1 = "\<lparr>url = url1, http_method = ''POST'', headers = fst ?hw, body = body1\<rparr>"
  let ?resp1 = "fst (fetch env ?req1 (snd ?hw))"
  let ?m1 = "message_id env (tick w)"
  note defs = emitted_def handleWithdrawal_def try_withdrawal_def Let_def io_defs spread_messageId
    u_def s_def dest_def new_def S'_def failure_def initiating_def body1_def body2_def params_def
    url1_def url2_def
  show thesis
  proof (cases "validAddress env dest")
    case None
    show thesis
      by (rule validation_rejected) (use None amt in \<open>simp_all add: defs\<close>)
  next
    case (Some v)
    show thesis
    proof (cases "truthy v")
      case False
      show thesis
        by (rule invalid) (use Some False amt in \<open>simp_all add: defs\<close>)
    next
      case True
      note valid = Some True
      show thesis
      proof (cases ?resp1)
        case None
        show thesis
          by (rule sign_info_rejected[of ?req1 ?m1])
            (use valid None amt in \<open>simp_all add: defs\<close>)
      next
        case r: (Some r1)
        show thesis
        proof (cases "code r1 = ''0''")
          case False
          show thesis
            by (rule sign_info_failed[of ?req1 r1 ?m1])
              (use valid r False amt in \<open>simp_all add: defs\<close>)
        next
          case c1: True
          show thesis
          proof (cases "data r1")
            case Nil
            show thesis
              by (rule sign_info_no_data[of ?req1 r1 ?m1])
                (use valid r c1 Nil amt in \<open>simp_all add: defs\<close>)
          next
            case (Cons txData ds)
            show thesis
            proof (cases "gasPrice txData")
              case None
              show thesis
                by (rule sign_info_no_data[of ?req1 r1 ?m1])
                  (use valid r c1 Cons None amt in \<open>simp_all add: defs\<close>)
            next
              case g: (Some normal)
              show thesis
              proof (cases "signTransaction env 196 (privateKey s) (params txData normal)")
                case None
                show thesis
                  by (rule sign_rejected[of ?req1 r1 txData ds normal ?m1])
                    (use valid r c1 Cons g None amt in \<open>simp_all add: defs\<close>)
              next
                case sg: (Some signedTx)
                let ?hw2 = "getHeaders env ''POST'' ''/api/v5/wallet/pre-transaction/broadcast-transaction''
                              (Some (body2 signedTx)) (w\<lparr>tick := Suc (Suc (Suc (tick w)))\<rparr>)"
                let ?req2 = "\<lparr>url = url2, http_method = ''POST'', headers = fst ?hw2, body = body2 signedTx\<rparr>"
                let ?resp2 = "fst (fetch env ?req2 (snd ?hw2))"
                show thesis
                proof (cases ?resp2)
                  case None
                  show thesis
                    by (rule broadcast_rejected[of ?req1 r1 txData ds normal signedTx ?req2 ?m1])
                      (use valid r c1 Cons g sg None amt in \<open>simp_all add: defs\<close>)
                next
                  case b: (Some r2)
                  show thesis
                  proof (cases "code r2 = ''0''")
                    case False
                    show thesis
                      by (rule broadcast_failed[of ?req1 r1 txData ds normal signedTx ?req2 r2 ?m1])
                        (use valid r c1 Cons g sg b False amt in \<open>simp_all add: defs\<close>)
                  next
                    case c2: True
                    show thesis
                    proof (cases "data r2")
                      case Nil
                      show thesis
                        by (rule broadcast_no_data[of ?req1 r1 txData ds normal signedTx ?req2 r2 ?m1])
                          (use valid r c1 Cons g sg b c2 Nil amt in \<open>simp_all add: defs\<close>)
                    next
                      case d: (Cons d ds')
                      show thesis
                        by (rule success[of ?req1 r1 txData ds normal signedTx ?req2 r2 d ds'
                              "message_id env (Suc (Suc (Suc (Suc (Suc (tick w))))))"])
                          (use valid r c1 Cons g sg b c2 d amt in \<open>simp_all add: defs\<close>)
                    qed
                  qed
                qed
              qed
            qed
          qed
        qed
      qed
    qed
  qed
qed

lemma truthy_number_Some:
  "truthy_number v \<Longrightarrow> \<exists>amount. v = Some amount \<and> truthy_number (Some amount)"
  by (cases v) (simp_all add: truthy_number_def)

lemma amount_phase_emitted:
  assumes "\<not> truthy_number (withdrawalAmount (userState_of w (from_id ctx)))"
  shows "\<exists>txt options. emitted (handleWithdrawal env ctx) w = [Reply (from_id ctx) txt options]"
  using assms by (simp add: emitted_def handleWithdrawal_def Let_def io_defs)

lemma parseFloat_2_5: "parseFloat ''2.5'' = Finite False 5 (- 1)"
  by code_simp

lemma txAmountInWei_2_5: "txAmountInWei_of (Finite False 5 (- 1)) = ''2500000000000000000''"
  by code_simp

lemma Number_toString_2_5: "Number_toString (Finite False 5 (- 1)) = ''2.5''"
  by code_simp

text \<open>
  However an attempt in the destination phase ends, it leaves the session of the user as
  it was but for \<open>messageId\<close>, and the sessions of other users as they were.
\<close>

lemma attempt_keeps_session:
  assumes "truthy_number (withdrawalAmount (userState_of w (from_id ctx)))"
  shows "\<exists>m. userState_of (handleWithdrawal env ctx w) (from_id ctx)
               = (userState_of w (from_id ctx))\<lparr>messageId := m\<rparr>
            \<and> (\<forall>user. user \<noteq> from_id ctx \<longrightarrow>
                  userStates (handleWithdrawal env ctx w) user = userStates w user)"
proof -
  from assms obtain amount where a: "withdrawalAmount (userState_of w (from_id ctx)) = Some amount"
      "truthy_number (Some amount)"
    using truthy_number_Some by blast
  have same: "\<And>s :: session. s = s\<lparr>messageId := messageId s\<rparr>" by simp
  from a show ?thesis
  proof (cases rule: destination_cases[where env = env])
    case validation_rejected
    then show ?thesis using same by (metis userState_of_def)
  next
    case invalid
    then show ?thesis using same by (metis userState_of_def)
  qed (auto simp: userState_of_def)
qed

lemmas demo_defs = message_def demo_env_def library_env_def library_validAddress_def
  library_signTransaction_def remote_api_def sign_info_response_def broadcast_response_def
  getRequestUrl_def apiBaseUrl_def xLayerChainId_def truthy_def
  amount_captured_world_def idle_world_def world_of_def demo_session_def

lemmas run_defs = handleWithdrawal_def try_withdrawal_def handleInitialWithdrawal_def
  on_message_text_def handleUserState_def io_defs Let_def userState_of_def spread_def or_else_def
  empty_session_def truthy_number_def truthy_string_def template_def
  txAmountInWei_2_5 Number_toString_2_5

lemma toUpperCase_char:
  "(let n = (of_char c :: nat) in if 97 \<le> n \<and> n \<le> 122 then char_of (n - 32) else c)
     = (case map_of (zip ''abcdefghijklmnopqrstuvwxyz'' ''ABCDEFGHIJKLMNOPQRSTUVWXYZ'') c of
          None \<Rightarrow> c | Some C \<Rightarrow> C)"
proof (cases c)
  case (Char b0 b1 b2 b3 b4 b5 b6 b7)
  show ?thesis
    unfolding Char
    by (cases b0; cases b1; cases b2; cases b3; cases b4; cases b5; cases b6; cases b7;
        simp add: Let_def; code_simp)
qed

lemma toUpperCase_table:
  "toUpperCase s
     = map (\<lambda>c. case map_of (zip ''abcdefghijklmnopqrstuvwxyz'' ''ABCDEFGHIJKLMNOPQRSTUVWXYZ'') c of
                  None \<Rightarrow> c | Some C \<Rightarrow> C) s"
  unfolding toUpperCase_def by (rule map_cong[OF refl]) (rule toUpperCase_char)

text \<open>
  With the wallet library as it is, the attempt for an accepted destination ends in the
  failure message at the signing step, and the pending withdrawal survives it: the session
  still has \<open>withdrawalRequested\<close> and the amount \<open>2.5\<close>, and when the user presses the
  withdraw button again and answers the amount prompt with \<open>3\<close>, the text is taken for
  the destination of a withdrawal of \<open>2.5\<close> and goes out in a sign-info request.
\<close>

lemma pending_withdrawal_survives_failed_signing:
  fixes w_failed w_again :: world
  defines "w_failed \<equiv> handleWithdrawal library_env
                         (message ''0x1111111111111111111111111111111111111111'' (Some 5))
                         amount_captured_world"
  defines "w_again \<equiv> handleInitialWithdrawal library_env (message [] None) w_failed"
  shows "last (trace w_failed)
           = Reply 1 ''An error occurred while initiating the withdrawal.'' NoOptions
   \<and> withdrawalRequested (userState_of w_failed 1) = Some True
   \<and> withdrawalAmount (userState_of w_failed 1) = Some (Finite False 5 (- 1))
   \<and> (\<exists>req. url req = getRequestUrl ''/api/v5/wallet/pre-transaction/sign-info''
          \<and> body req = JSON_stringify
               [(''chainIndex'', Some ''196''), (''fromAddr'', Some ''0xabc''),
                (''toAddr'', Some ''3''), (''txAmount'', Some ''2500000000000000000'')]
          \<and> emitted (on_message_text library_env (message ''3'' (messageId (userState_of w_again 1))))
               w_again
             = [Reply 1 ''Initiating withdrawal...'' NoOptions,
                Fetch req (Some sign_info_response),
                Log (TransactionParams
                       \<lparr>tx_to = ''3'', tx_value = ''2500000000000000000'', tx_nonce = Some ''1'',
                        tx_gasPrice = Some ''100'', tx_gasLimit = Some ''21000'',
                        tx_chainId = ''196''\<rparr>),
                Log (ErrorDuringWithdrawal Rejected),
                Reply 1 ''An error occurred while initiating the withdrawal.'' NoOptions])"
  unfolding w_again_def w_failed_def
  by (simp add: demo_defs run_defs emitted_def)

section \<open>The signed request client\<close>

text \<open>
  Claim C9.  For every method of ASCII characters, every path and every body, the headers
  that \<open>getHeaders\<close> builds carry, under \<open>OK-ACCESS-SIGN\<close>, the base64 HMAC-SHA256
  (keyed with the API secret) of exactly the timestamp followed by the method with its
  letters \<open>a\<close> to \<open>z\<close> turned into \<open>A\<close> to \<open>Z\<close>, the path and the body, where an
  absent body counts as the empty string; the timestamp inside the signed string is the
  value under \<open>OK-ACCESS-TIMESTAMP\<close>, the clock being read once.
\<close>

theorem getHeaders_signature:
  assumes "list_all (\<lambda>c. of_char c < (128::nat)) method"
  shows "map_of (fst (getHeaders env method path body_arg w)) ''OK-ACCESS-SIGN''
     = Some (hmac_sha256_base64 env (OKX_API_SECRET_KEY env)
               (toISOString_now env (tick w)
                @ map (\<lambda>c. case map_of (zip ''abcdefghijklmnopqrstuvwxyz''
                                              ''ABCDEFGHIJKLMNOPQRSTUVWXYZ'') c of
                              None \<Rightarrow> c | Some C \<Rightarrow> C) method
                @ path
                @ (case body_arg of None \<Rightarrow> [] | Some b \<Rightarrow> b)))
   \<and> map_of (fst (getHeaders env method path body_arg w)) ''OK-ACCESS-TIMESTAMP''
     = Some (toISOString_now env (tick w))
   \<and> map fst (fst (getHeaders env method path body_arg w))
     = [''Content-Type'', ''OK-ACCESS-KEY'', ''OK-ACCESS-SIGN'', ''OK-ACCESS-TIMESTAMP'',
        ''OK-ACCESS-PASSPHRASE'', ''OK-ACCESS-PROJECT'']
   \<and> snd (getHeaders env method path body_arg w) = w\<lparr>tick := tick w + 1\<rparr>"
  unfolding getHeaders_def Let_def toUpperCase_table by simp

theorem getHeaders_signature_witness:
  "list_all (\<lambda>c. of_char c < (128::nat)) ''post''
   \<and> map_of (fst (getHeaders echo_env ''post'' ''/api/v5/wallet/pre-transaction/sign-info'' None
                    idle_world)) ''OK-ACCESS-SIGN''
     = Some ''secret|2024-01-01T00:00:00.000ZPOST/api/v5/wallet/pre-transaction/sign-info''
   \<and> map_of (fst (getHeaders echo_env ''post'' ''/api/v5/wallet/pre-transaction/sign-info''
                    (Some ''{}'') idle_world)) ''OK-ACCESS-SIGN''
     = Some ''secret|2024-01-01T00:00:00.000ZPOST/api/v5/wallet/pre-transaction/sign-info{}''
   \<and> map_of (fst (getHeaders echo_env ''post'' ''/api/v5/wallet/pre-transaction/sign-info'' None
                    idle_world)) ''OK-ACCESS-TIMESTAMP''
     = Some ''2024-01-01T00:00:00.000Z''"
proof -
  have h: "list_all (\<lambda>c. of_char c < (128::nat)) ''post''" by simp
  note t1 = getHeaders_signature[OF h, of echo_env "''/api/v5/wallet/pre-transaction/sign-info''"
      None idle_world]
  note t2 = getHeaders_signature[OF h, of echo_env "''/api/v5/wallet/pre-transaction/sign-info''"
      "Some ''{}''" idle_world]
  from t1 t2 h show ?thesis
    by (simp add: echo_env_def demo_env_def idle_world_def world_of_def)
qed

section \<open>The key manager\<close>

text \<open>
  Claim C8.  \<open>getOrCreateAddress\<close> is idempotent: when a call has returned an address
  (a non-empty string, as every address of the wallet library is), a second call for the
  same user returns the identical address and leaves the world as it is: the session
  keeps its private key, public key and address, and no new mnemonic is drawn.
\<close>

theorem getOrCreateAddress_idempotent:
  assumes "getOrCreateAddress env user w = (Inr a, w1)" and "a \<noteq> []"
  shows "getOrCreateAddress env user w1 = (Inr a, w1)"
  using assms
  by (auto simp: getOrCreateAddress_def Let_def updateUserState_def userState_of_def spread_def
        or_else_def truthy_string_def empty_session_def
      split: option.splits if_splits prod.splits)

theorem getOrCreateAddress_idempotent_witness:
  fixes w1 :: world
  defines "w1 \<equiv> snd (getOrCreateAddress demo_env 1 fresh_world)"
  shows "getOrCreateAddress demo_env 1 fresh_world = (Inr ''0xabc'', w1)
   \<and> ''0xabc'' \<noteq> []
   \<and> privateKey (userState_of w1 1) = Some ''sk''
   \<and> getOrCreateAddress demo_env 1 w1 = (Inr ''0xabc'', w1)"
proof -
  have f: "fst (getOrCreateAddress demo_env 1 fresh_world) = Inr ''0xabc''"
    by code_simp
  have h1: "getOrCreateAddress demo_env 1 fresh_world = (Inr ''0xabc'', w1)"
    using f by (simp add: w1_def prod_eq_iff)
  have h2: "''0xabc'' \<noteq> []" by simp
  have k: "privateKey (userState_of w1 1) = Some ''sk''"
    unfolding w1_def by code_simp
  show ?thesis
    by (rule conjI[OF h1 conjI[OF h2 conjI[OF k getOrCreateAddress_idempotent[OF h1 h2]]]])
qed

section \<open>Routing of text messages\<close>

text \<open>
  Claim C10.  A text message that is not a reply to the message whose id the session
  holds as the last bot message does not reach the withdrawal handler: the only effect is
  the reply telling the user to select a menu option, and the session table, with the
  withdrawal state in it, is unchanged.  This holds for every world, so also while a
  withdrawal is pending.
\<close>

theorem unrelated_text_ignored:
  assumes "reply_to_message_id ctx = None
           \<or> reply_to_message_id ctx \<noteq> messageId (userState_of w (from_id ctx))"
  shows "on_message_text env ctx w =
           w\<lparr>trace := trace w @ [Reply (from_id ctx) ''Please select an option from the menu.'' NoOptions],
             tick := tick w + 1\<rparr>"
  using assms
  by (auto simp: on_message_text_def handleUserState_def ctx_reply_def Let_def split: option.splits)

theorem unrelated_text_ignored_witness:
  fixes c :: ctx
  defines "c \<equiv> message ''0xdef'' None"
  shows "reply_to_message_id c = None
   \<and> on_message_text demo_env c amount_captured_world =
           amount_captured_world
             \<lparr>trace := trace amount_captured_world
                       @ [Reply (from_id c) ''Please select an option from the menu.'' NoOptions],
              tick := tick amount_captured_world + 1\<rparr>"
proof -
  have h: "reply_to_message_id c = None"
    by (simp add: c_def message_def)
  show ?thesis
    by (rule conjI[OF h unrelated_text_ignored[OF disjI1[OF h]]])
qed

section \<open>The withdrawal state machine\<close>

text \<open>
  Claim C4.  While no amount is captured, a text whose \<open>parseFloat\<close> is \<open>NaN\<close> or is
  not above zero (the texts \<open>abc\<close>, \<open>-5\<close> and \<open>0\<close> among them) makes the handler send
  the error message and nothing else: the session table is unchanged, so the amount stays
  unset and the same prompt can be answered again.
\<close>

theorem invalid_amount_keeps_state:
  assumes "\<not> truthy_number (withdrawalAmount (userState_of w (from_id ctx)))"
    and "message_text ctx \<in> {''abc'', ''-5'', ''0''}
         \<or> isNaN (parseFloat (message_text ctx)) \<or> le_zero (parseFloat (message_text ctx))"
  shows "handleWithdrawal env ctx w =
           w\<lparr>trace := trace w @ [Reply (from_id ctx)
                                  ''Invalid withdrawal amount. Please enter a positive number.''
                                  NoOptions],
             tick := tick w + 1\<rparr>"
proof -
  have a: "isNaN (parseFloat ''abc'')" by code_simp
  have b: "le_zero (parseFloat ''-5'')" by code_simp
  have c: "le_zero (parseFloat ''0'')" by code_simp
  from assms(2) a b c
  have "isNaN (parseFloat (message_text ctx)) \<or> le_zero (parseFloat (message_text ctx))"
    by auto
  with assms(1) show ?thesis
    by (simp add: handleWithdrawal_def ctx_reply_def Let_def)
qed

theorem invalid_amount_keeps_state_witness:
  fixes c :: ctx
  defines "c \<equiv> message ''abc'' (Some 5)"
  shows "\<not> truthy_number (withdrawalAmount (userState_of amount_requested_world (from_id c)))
   \<and> isNaN (parseFloat (message_text c))
   \<and> handleWithdrawal demo_env c amount_requested_world =
           amount_requested_world
             \<lparr>trace := trace amount_requested_world
                       @ [Reply (from_id c) ''Invalid withdrawal amount. Please enter a positive number.''
                            NoOptions],
              tick := tick amount_requested_world + 1\<rparr>"
proof -
  have h1: "\<not> truthy_number (withdrawalAmount (userState_of amount_requested_world (from_id c)))"
    unfolding c_def by code_simp
  have h2: "isNaN (parseFloat (message_text c))"
    unfolding c_def by code_simp
  show ?thesis
    by (rule conjI[OF h1 conjI[OF h2 invalid_amount_keeps_state[OF h1 disjI2[OF disjI1[OF h2]]]]])
qed


text \<open>
  Claim C7.  Whenever a request of the handler is answered with a code other than
  \<open>"0"\<close>, what follows is only the failure path.  After such an answer to sign-info the
  remaining events are the error log line and the failure message: nothing is signed and
  nothing is broadcast.  After such an answer to broadcast they are the log line of the
  response, the error log line and the failure message: no success is reported.  The
  failure message differs from every success message.
\<close>

theorem failed_response_stops_attempt:
  assumes "(req, r, post) \<in> set (answered (emitted (handleWithdrawal env ctx) w))"
    and "code r \<noteq> ''0''"
  shows "((url req = getRequestUrl ''/api/v5/wallet/pre-transaction/sign-info''
           \<and> post = [Log (ErrorDuringWithdrawal (Error (case msg r of None \<Rightarrow> [] | Some m \<Rightarrow> m))),
                     Reply (from_id ctx) ''An error occurred while initiating the withdrawal.'' NoOptions])
          \<or> (url req = getRequestUrl ''/api/v5/wallet/pre-transaction/broadcast-transaction''
           \<and> post = [Log (BroadcastResponse r),
                     Log (ErrorDuringWithdrawal
                            (Error (if truthy_string (msg r) then template (msg r)
                                    else ''Failed to broadcast transaction''))),
                     Reply (from_id ctx) ''An error occurred while initiating the withdrawal.'' NoOptions]))
         \<and> (\<forall>x. ''An error occurred while initiating the withdrawal.''
                  \<noteq> ''Successfully initiated withdrawal of '' @ x)"
proof (cases "truthy_number (withdrawalAmount (userState_of w (from_id ctx)))")
  case False
  from amount_phase_emitted[OF False, of env] assms(1) show ?thesis by auto
next
  case True
  then obtain amount where a: "withdrawalAmount (userState_of w (from_id ctx)) = Some amount"
      "truthy_number (Some amount)"
    using truthy_number_Some by blast
  from a show ?thesis
    by (cases rule: destination_cases[where env = env]) (use assms in auto)
qed

theorem failed_response_stops_attempt_witness:
  "\<exists>req r post.
     (req, r, post) \<in> set (answered (emitted (handleWithdrawal failing_env (message ''0xdef'' (Some 5))) amount_captured_world))
   \<and> code r \<noteq> ''0''
   \<and> ((url req = getRequestUrl ''/api/v5/wallet/pre-transaction/sign-info''
           \<and> post = [Log (ErrorDuringWithdrawal (Error (case msg r of None \<Rightarrow> [] | Some m \<Rightarrow> m))),
                     Reply (from_id (message ''0xdef'' (Some 5))) ''An error occurred while initiating the withdrawal.'' NoOptions])
          \<or> (url req = getRequestUrl ''/api/v5/wallet/pre-transaction/broadcast-transaction''
           \<and> post = [Log (BroadcastResponse r),
                     Log (ErrorDuringWithdrawal
                            (Error (if truthy_string (msg r) then template (msg r)
                                    else ''Failed to broadcast transaction''))),
                     Reply (from_id (message ''0xdef'' (Some 5))) ''An error occurred while initiating the withdrawal.'' NoOptions]))
   \<and> (\<forall>x. ''An error occurred while initiating the withdrawal.''
                  \<noteq> ''Successfully initiated withdrawal of '' @ x)"
proof -
  let ?xs = "answered (emitted (handleWithdrawal failing_env (message ''0xdef'' (Some 5))) amount_captured_world)"
  have len: "0 < length ?xs" by code_simp
  obtain req r post where x: "?xs ! 0 = (req, r, post)"
    by (cases "?xs ! 0") auto
  have m: "(req, r, post) \<in> set ?xs"
    using nth_mem[OF len] x by simp
  have "code (fst (snd (?xs ! 0))) \<noteq> ''0''" by code_simp
  then have c: "code r \<noteq> ''0''" using x by simp
  from failed_response_stops_attempt[OF m c] m c show ?thesis by blast
qed

text \<open>
  Claim C5.  Every request that the handler sends is one of two.  The sign-info request
  has as its body the JSON object with exactly the chain id, the session's address, the
  destination and the amount in base units.  The broadcast request has as its body the
  JSON object with exactly the signed transaction that the wallet library returned, the
  chain id and the session's address.  The session's private key is a property of
  neither object; it is passed to the local signing call only.
\<close>

theorem request_bodies_exclude_private_key:
  assumes "Fetch req resp \<in> set (emitted (handleWithdrawal env ctx) w)"
  shows "(\<exists>amount. withdrawalAmount (userState_of w (from_id ctx)) = Some amount
            \<and> url req = getRequestUrl ''/api/v5/wallet/pre-transaction/sign-info''
            \<and> body req = JSON_stringify
                 [(''chainIndex'', Some xLayerChainId),
                  (''fromAddr'', address (userState_of w (from_id ctx))),
                  (''toAddr'', Some (message_text ctx)),
                  (''txAmount'', Some (txAmountInWei_of amount))])
       \<or> (\<exists>signedTx params.
            signTransaction env 196 (privateKey (userState_of w (from_id ctx))) params = Some signedTx
            \<and> url req = getRequestUrl ''/api/v5/wallet/pre-transaction/broadcast-transaction''
            \<and> body req = JSON_stringify
                 [(''signedTx'', Some signedTx),
                  (''chainIndex'', Some xLayerChainId),
                  (''address'', address (userState_of w (from_id ctx)))])"
proof (cases "truthy_number (withdrawalAmount (userState_of w (from_id ctx)))")
  case False
  from amount_phase_emitted[OF False, of env] assms(1) show ?thesis by auto
next
  case True
  then obtain amount where a: "withdrawalAmount (userState_of w (from_id ctx)) = Some amount"
      "truthy_number (Some amount)"
    using truthy_number_Some by blast
  from a show ?thesis
    by (cases rule: destination_cases[where env = env]) (use assms a in auto)
qed

theorem request_bodies_exclude_private_key_witness:
  fixes c :: ctx
  defines "c \<equiv> message ''0xdef'' (Some 5)"
  shows "\<exists>req resp.
     Fetch req resp \<in> set (emitted (handleWithdrawal library_env c) amount_captured_world)
   \<and> ((\<exists>amount. withdrawalAmount (userState_of amount_captured_world (from_id c)) = Some amount
            \<and> url req = getRequestUrl ''/api/v5/wallet/pre-transaction/sign-info''
            \<and> body req = JSON_stringify
                 [(''chainIndex'', Some xLayerChainId),
                  (''fromAddr'', address (userState_of amount_captured_world (from_id c))),
                  (''toAddr'', Some (message_text c)),
                  (''txAmount'', Some (txAmountInWei_of amount))])
       \<or> (\<exists>signedTx params.
            signTransaction library_env 196 (privateKey (userState_of amount_captured_world (from_id c))) params = Some signedTx
            \<and> url req = getRequestUrl ''/api/v5/wallet/pre-transaction/broadcast-transaction''
            \<and> body req = JSON_stringify
                 [(''signedTx'', Some signedTx),
                  (''chainIndex'', Some xLayerChainId),
                  (''address'', address (userState_of amount_captured_world (from_id c)))]))"
proof -
  let ?new = "emitted (handleWithdrawal library_env c) amount_captured_world"
  have len: "1 < length ?new" unfolding c_def by code_simp
  have "is_Fetch (?new ! 1)" unfolding c_def by code_simp
  then obtain req resp where e: "?new ! 1 = Fetch req resp"
    by (cases "?new ! 1") simp_all
  have m: "Fetch req resp \<in> set ?new"
    using nth_mem[OF len] e by simp
  from request_bodies_exclude_private_key[OF m] m show ?thesis by blast
qed

text \<open>
  Claim C6.  The flow of a withdrawal of \<open>2.5\<close> with the wallet library as it is: the
  withdraw button, then the text \<open>2.5\<close> as a reply to the amount prompt, then a
  destination that the library judges valid as a reply to the destination prompt, the
  remote API answering sign-info with code \<open>"0"\<close> and the transaction data.  The last
  step sends the sign-info request with \<open>txAmount\<close> equal to \<open>2500000000000000000\<close>,
  as the claim says.  Then the signing call rejects, since the bot passes the chain id
  where the library takes its one argument, the object with the private key and the
  transaction data: no broadcast request is sent, and the last message to the user is the
  failure message, with no order id in it.
\<close>

theorem flow_stops_at_signing:
  fixes c0 c1 c2 :: ctx and w1 w2 :: world
  defines "c0 \<equiv> message [] None"
  defines "w1 \<equiv> handleInitialWithdrawal library_env c0 idle_world"
  defines "c1 \<equiv> message ''2.5'' (messageId (userState_of w1 1))"
  defines "w2 \<equiv> on_message_text library_env c1 w1"
  defines "c2 \<equiv> message ''0x1111111111111111111111111111111111111111'' (messageId (userState_of w2 1))"
  shows "withdrawalAmount (userState_of w2 1) = Some (Finite False 5 (- 1))
   \<and> validAddress library_env ''0x1111111111111111111111111111111111111111''
       = Some (Object \<lparr>isValid = True, va_address = ''0x1111111111111111111111111111111111111111''\<rparr>)
   \<and> (\<exists>req. url req = getRequestUrl ''/api/v5/wallet/pre-transaction/sign-info''
          \<and> body req = JSON_stringify
               [(''chainIndex'', Some ''196''), (''fromAddr'', Some ''0xabc''),
                (''toAddr'', Some ''0x1111111111111111111111111111111111111111''),
                (''txAmount'', Some ''2500000000000000000'')]
          \<and> emitted (on_message_text library_env c2) w2
             = [Reply 1 ''Initiating withdrawal...'' NoOptions,
                Fetch req (Some sign_info_response),
                Log (TransactionParams
                       \<lparr>tx_to = ''0x1111111111111111111111111111111111111111'',
                        tx_value = ''2500000000000000000'', tx_nonce = Some ''1'',
                        tx_gasPrice = Some ''100'', tx_gasLimit = Some ''21000'',
                        tx_chainId = ''196''\<rparr>),
                Log (ErrorDuringWithdrawal Rejected),
                Reply 1 ''An error occurred while initiating the withdrawal.'' NoOptions])"
  unfolding c2_def w2_def c1_def w1_def c0_def
  by (simp add: demo_defs run_defs emitted_def is_hex_address_def parseFloat_2_5 isNaN_def
      le_zero_def)

text \<open>
  Claim C2.  The pending withdrawal is not cleared when an attempt ends.  With the amount
  \<open>2.5\<close> captured for user 1, the accepted destination \<open>0xdef\<close> and a remote API
  that answers with code \<open>"0"\<close>, the attempt ends with the success message, and
  afterwards the session still has \<open>withdrawalRequested\<close> set and
  \<open>withdrawalAmount\<close> equal to \<open>2.5\<close>, while \<open>address\<close> and \<open>privateKey\<close> are
  as before.  When the user then presses the withdraw button again and answers the amount
  prompt with \<open>3\<close>, the text is taken for a destination and rejected as an address,
  and the amount is still \<open>2.5\<close>.
\<close>

theorem pending_withdrawal_not_cleared:
  fixes w_done w_again w_reply :: world
  defines "w_done \<equiv> handleWithdrawal demo_env (message ''0xdef'' (Some 5)) amount_captured_world"
  defines "w_again \<equiv> handleInitialWithdrawal demo_env (message [] None) w_done"
  defines "w_reply \<equiv> on_message_text demo_env (message ''3'' (messageId (userState_of w_again 1))) w_again"
  shows "last (trace w_done)
           = Reply 1 ''Successfully initiated withdrawal of 2.5 OKB to 0xdef. Transaction ID: order-7''
               Markdown
   \<and> withdrawalRequested (userState_of w_done 1) = Some True
   \<and> withdrawalAmount (userState_of w_done 1) = Some (Finite False 5 (- 1))
   \<and> address (userState_of w_done 1) = address (userState_of amount_captured_world 1)
   \<and> privateKey (userState_of w_done 1) = privateKey (userState_of amount_captured_world 1)
   \<and> last (trace w_reply) = Reply 1 ''Invalid destination address. Please try again.'' NoOptions
   \<and> withdrawalAmount (userState_of w_reply 1) = Some (Finite False 5 (- 1))"
  unfolding w_reply_def w_again_def w_done_def
  by (simp add: demo_defs run_defs)

section \<open>Conversion to base units\<close>

text \<open>
  Claim C1.  The amount text passes through \<open>parseFloat\<close> before the decimal arithmetic:
  the text \<open>1.000000000000000001\<close> is captured as the same number as \<open>1\<close> (the
  handler stores that number in the session), and the amount in base units computed from
  it is \<open>1000000000000000000\<close>, not \<open>1000000000000000001\<close>.
\<close>

theorem amount_through_float_loses_digits:
  "parseFloat ''1.000000000000000001'' = Finite False 1 0
   \<and> parseFloat ''1'' = Finite False 1 0
   \<and> withdrawalAmount
       (userState_of
          (handleWithdrawal demo_env (message ''1.000000000000000001'' (Some 5)) amount_requested_world) 1)
     = Some (Finite False 1 0)
   \<and> txAmountInWei_of (parseFloat ''1.000000000000000001'') = ''1000000000000000000''"
  by code_simp

end
